theory Spec2Isabelle
  imports Complex_Main "HOL-Library.Sublist"
begin

section \<open>Python strings\<close>

text \<open>
  A Python \<open>str\<close> is a sequence of Unicode code points, so a string is modelled as a list
  of code points (natural numbers), not as a list of 8-bit characters: \<open>str.strip\<close>
  and \<open>str.split\<close> work on code points, and the whitespace that \<open>strip\<close> removes
  includes code points above 255.
\<close>

type_synonym pystr = "nat list"

definition lit :: "string \<Rightarrow> pystr" where
  "lit s = map of_char s"

definition NL :: nat where
  "NL = 10"

text \<open>
  \<open>str.strip()\<close> without arguments removes the code points for which CPython's
  \<open>Py_UNICODE_ISSPACE\<close> holds: the ASCII table entries 0x09-0x0D, 0x1C-0x1F and 0x20,
  and beyond ASCII the code points of bidirectional type WS, B or S.
\<close>

definition py_isspace :: "nat \<Rightarrow> bool" where
  "py_isspace c \<longleftrightarrow>
     (9 \<le> c \<and> c \<le> 13) \<or> (28 \<le> c \<and> c \<le> 31) \<or> c = 32 \<or> c = 133 \<or> c = 160 \<or>
     c = 5760 \<or> (8192 \<le> c \<and> c \<le> 8202) \<or> c = 8232 \<or> c = 8233 \<or> c = 8239 \<or>
     c = 8287 \<or> c = 12288"

definition py_lstrip :: "pystr \<Rightarrow> pystr" where
  "py_lstrip s = dropWhile py_isspace s"

definition py_rstrip :: "pystr \<Rightarrow> pystr" where
  "py_rstrip s = rev (dropWhile py_isspace (rev s))"

definition py_strip :: "pystr \<Rightarrow> pystr" where
  "py_strip s = py_rstrip (py_lstrip s)"

text \<open>\<open>s.startswith(sep)\<close> and \<open>sep in s\<close>.\<close>

definition startswith :: "pystr \<Rightarrow> pystr \<Rightarrow> bool" where
  "startswith s sep \<longleftrightarrow> take (length sep) s = sep"

fun contains :: "pystr \<Rightarrow> pystr \<Rightarrow> bool" where
  "contains [] sep = (sep = [])"
| "contains (c # cs) sep = (startswith (c # cs) sep \<or> contains cs sep)"

text \<open>
  \<open>s.split(sep)\<close> with a separator: the string is scanned from the left, every
  occurrence of \<open>sep\<close> that does not overlap an earlier one ends a piece, and the pieces
  between the occurrences are returned, empty ones included. \<open>cur\<close> holds the piece under
  construction, reversed. Python raises \<open>ValueError\<close> for an empty separator; the scan
  below is only entered with a non-empty one.
\<close>

function split_scan :: "pystr \<Rightarrow> pystr \<Rightarrow> pystr \<Rightarrow> pystr list" where
  "split_scan sep cur [] = [rev cur]"
| "split_scan sep cur (c # cs) =
     (if sep \<noteq> [] \<and> startswith (c # cs) sep
      then rev cur # split_scan sep [] (drop (length sep) (c # cs))
      else split_scan sep (c # cur) cs)"
  by pat_completeness auto
termination
  by (relation "measure (\<lambda>(sep, cur, s). length s)") auto

datatype py_error =
    ValueError
  | IndexError
  | FileNotFoundError pystr
  | IsADirectoryError pystr
  | FileExistsError pystr
  | NotADirectoryError pystr
  | UnicodeDecodeError pystr
  | UnicodeEncodeError
  | ProviderError pystr

definition py_split :: "pystr \<Rightarrow> pystr \<Rightarrow> py_error + pystr list" where
  "py_split s sep = (if sep = [] then Inl ValueError else Inr (split_scan sep [] s))"

section \<open>comparison.py: clause segmentation\<close>

text \<open>
  \<^verbatim>\<open>clauses = [clause.strip() for clause in text.split("\n\n") if clause.strip()]\<close>
  The separator is the literal of two newlines, so \<open>split\<close> cannot raise here.
\<close>

definition extract_clauses :: "pystr \<Rightarrow> pystr list" where
  "extract_clauses text =
     map py_strip (filter (\<lambda>clause. py_strip clause \<noteq> []) (split_scan [NL, NL] [] text))"

section \<open>More string and path operations of the standard library\<close>

definition endswith :: "pystr \<Rightarrow> pystr \<Rightarrow> bool" where
  "endswith s suf \<longleftrightarrow> length suf \<le> length s \<and> drop (length s - length suf) s = suf"

text \<open>
  \<open>str.lower()\<close>. Only the ASCII letters are mapped here; the Unicode case table for the
  code points from 128 on is not part of the model, they are left as they are.
\<close>

definition py_lower :: "pystr \<Rightarrow> pystr" where
  "py_lower s = map (\<lambda>c. if 65 \<le> c \<and> c \<le> 90 then c + 32 else c) s"

text \<open>\<open>sep.join(xs)\<close>.\<close>

fun py_join :: "pystr \<Rightarrow> pystr list \<Rightarrow> pystr" where
  "py_join sep [] = []"
| "py_join sep [x] = x"
| "py_join sep (x # y # xs) = x @ sep @ py_join sep (y # xs)"

text \<open>\<open>s.rfind(c)\<close> for a single code point: the last index of \<open>c\<close>, or \<open>-1\<close>.\<close>

fun rfind_from :: "nat \<Rightarrow> pystr \<Rightarrow> nat \<Rightarrow> int \<Rightarrow> int" where
  "rfind_from c [] i found = found"
| "rfind_from c (x # xs) i found = rfind_from c xs (Suc i) (if x = c then int i else found)"

definition rfind :: "pystr \<Rightarrow> nat \<Rightarrow> int" where
  "rfind p c = rfind_from c p 0 (- 1)"

definition SLASH :: nat where
  "SLASH = 47"




text \<open>\<open>posixpath.join\<close> with two arguments.\<close>

definition os_path_join :: "pystr \<Rightarrow> pystr \<Rightarrow> pystr" where
  "os_path_join a b =
     (if startswith b [SLASH] then b
      else if a = [] \<or> endswith a [SLASH] then a @ b
      else a @ [SLASH] @ b)"

text \<open>
  Text is written as UTF-8. A string with a surrogate code point (or a value that is no
  code point) cannot be encoded; \<open>write\<close> raises \<open>UnicodeEncodeError\<close> for it.
\<close>

definition utf8_encodable :: "pystr \<Rightarrow> bool" where
  "utf8_encodable s \<longleftrightarrow> list_all (\<lambda>c. c < 55296 \<or> (57343 < c \<and> c \<le> 1114111)) s"

text \<open>
  Reading in text mode with the default \<open>newline=None\<close> turns \<open>\r\n\<close> and a lone
  \<open>\r\<close> into \<open>\n\<close>.
\<close>

fun universal_newlines :: "pystr \<Rightarrow> pystr" where
  "universal_newlines [] = []"
| "universal_newlines [a] = [if a = 13 then 10 else a]"
| "universal_newlines (a # b # cs) =
     (if a = 13 \<and> b = 10 then 10 # universal_newlines cs
      else if a = 13 then 10 # universal_newlines (b # cs)
      else a # universal_newlines (b # cs))"

section \<open>The environment: file system, clock, standard output\<close>

text \<open>
  \<open>datetime.now()\<close> and \<open>strftime("%Y%m%d_%H%M%S")\<close>. A \<open>datetime\<close> has
  \<open>1 \<le> year \<le> 9999\<close>, a month, a day, and a time of day; each field is printed
  zero-padded to a fixed width (four digits for the year, two for the others).
\<close>

record datetime =
  year :: nat
  month :: nat
  day :: nat
  hour :: nat
  minute :: nat
  second :: nat

definition valid_datetime :: "datetime \<Rightarrow> bool" where
  "valid_datetime t \<longleftrightarrow>
     1 \<le> year t \<and> year t \<le> 9999 \<and> 1 \<le> month t \<and> month t \<le> 12 \<and>
     1 \<le> day t \<and> day t \<le> 31 \<and> hour t < 24 \<and> minute t < 60 \<and> second t < 60"

definition digit :: "nat \<Rightarrow> nat" where
  "digit n = 48 + n mod 10"

definition pad2 :: "nat \<Rightarrow> pystr" where
  "pad2 n = [digit (n div 10), digit n]"

definition pad4 :: "nat \<Rightarrow> pystr" where
  "pad4 n = [digit (n div 1000), digit (n div 100), digit (n div 10), digit n]"


text \<open>
  The file system maps a path, as the string the program uses, to what is there: a
  directory, a text file with its content, or a file whose bytes are not valid UTF-8.
  \<open>entries\<close> gives, for a directory, the names \<open>os.listdir\<close> returns, in the order it
  returns them. The clock gives the time of the \<open>k\<close>-th reading. Permissions, symbolic
  links, the length limits of names and the normalisation of paths (empty, \<open>.\<close> and
  \<open>..\<close> components) are not part of the model.
\<close>

datatype node = Directory | TextFile pystr | BinaryFile

record world =
  nodes :: "pystr \<rightharpoonup> node"
  entries :: "pystr \<rightharpoonup> pystr list"
  clock :: "nat \<Rightarrow> datetime"
  ticks :: nat
  stdout :: "pystr list"

text \<open>
  A computation with effects takes the world and returns the world it leaves, together
  with the value it returns (\<open>Inr\<close>) or the exception it raises (\<open>Inl\<close>).
\<close>

type_synonym 'a io = "world \<Rightarrow> (py_error + 'a) \<times> world"

definition io_bind :: "'a io \<Rightarrow> ('a \<Rightarrow> 'b io) \<Rightarrow> 'b io" where
  "io_bind m f w = (case m w of (Inl e, w') \<Rightarrow> (Inl e, w') | (Inr x, w') \<Rightarrow> f x w')"

definition io_return :: "'a \<Rightarrow> 'a io" where
  "io_return x w = (Inr x, w)"

definition io_lift :: "py_error + 'a \<Rightarrow> 'a io" where
  "io_lift r w = (r, w)"

definition print :: "pystr \<Rightarrow> unit io" where
  "print line w = (Inr (), w\<lparr>stdout := stdout w @ [line]\<rparr>)"

definition datetime_now :: "datetime io" where
  "datetime_now w = (Inr (clock w (ticks w)), w\<lparr>ticks := Suc (ticks w)\<rparr>)"

definition os_path_exists :: "pystr \<Rightarrow> world \<Rightarrow> bool" where
  "os_path_exists p w \<longleftrightarrow> nodes w p \<noteq> None"

definition os_listdir :: "pystr \<Rightarrow> pystr list io" where
  "os_listdir d w =
     (case entries w d of None \<Rightarrow> (Inl (FileNotFoundError d), w) | Some names \<Rightarrow> (Inr names, w))"

text \<open>
  The kernel resolves a path component by component, and every directory on the way must
  exist and be a directory. The directories on the way of a path are its non-empty proper
  prefixes that end before a slash; \<open>path_walk\<close> gives the error of the first of them
  that is missing (\<open>ENOENT\<close>) or is not a directory (\<open>ENOTDIR\<close>). The operations
  that make an entry, \<open>mkdir\<close> and opening for writing, walk the path. The look-ups
  (\<open>exists\<close>, \<open>isdir\<close>, opening for reading) read the node at the path: in a file
  system a node is only there when the directories on its way are.
\<close>

fun ancestors_from :: "pystr \<Rightarrow> pystr \<Rightarrow> pystr list" where
  "ancestors_from pre [] = []"
| "ancestors_from pre (c # cs) =
     (if c = SLASH \<and> pre \<noteq> [] then pre # ancestors_from (pre @ [c]) cs
      else ancestors_from (pre @ [c]) cs)"

definition ancestors :: "pystr \<Rightarrow> pystr list" where
  "ancestors p = ancestors_from [] p"

definition path_walk :: "world \<Rightarrow> pystr \<Rightarrow> py_error option" where
  "path_walk w p =
     (case find (\<lambda>a. nodes w a \<noteq> Some Directory) (ancestors p) of
        None \<Rightarrow> None
      | Some a \<Rightarrow>
          (case nodes w a of
             None \<Rightarrow> Some (FileNotFoundError p)
           | Some n \<Rightarrow> Some (NotADirectoryError p)))"

definition os_path_isdir :: "pystr \<Rightarrow> world \<Rightarrow> bool" where
  "os_path_isdir p w \<longleftrightarrow> nodes w p = Some Directory"

text \<open>
  A path given to the system is first encoded (UTF-8 with \<open>surrogateescape\<close>, which
  takes the code points U+DC80 to U+DCFF but no other surrogate) and must then hold no
  null character: \<open>UnicodeEncodeError\<close> and \<open>ValueError\<close>. These two are no
  \<open>OSError\<close>; the errors of the system calls are.
\<close>

definition fs_encodable :: "pystr \<Rightarrow> bool" where
  "fs_encodable p \<longleftrightarrow>
     list_all (\<lambda>c. c < 55296 \<or> (56448 \<le> c \<and> c \<le> 56575) \<or> (57343 < c \<and> c \<le> 1114111)) p"

definition path_arg_error :: "pystr \<Rightarrow> py_error option" where
  "path_arg_error p =
     (if \<not> fs_encodable p then Some UnicodeEncodeError
      else if 0 \<in> set p then Some ValueError else None)"

fun is_OSError :: "py_error \<Rightarrow> bool" where
  "is_OSError (FileNotFoundError p) = True"
| "is_OSError (IsADirectoryError p) = True"
| "is_OSError (FileExistsError p) = True"
| "is_OSError (NotADirectoryError p) = True"
| "is_OSError e = False"

text \<open>\<open>os.mkdir(p)\<close>.\<close>

definition os_mkdir :: "pystr \<Rightarrow> unit io" where
  "os_mkdir p w =
     (case path_arg_error p of
        Some e \<Rightarrow> (Inl e, w)
      | None \<Rightarrow>
          if p = [] then (Inl (FileNotFoundError p), w)
          else case path_walk w p of
                 Some e \<Rightarrow> (Inl e, w)
               | None \<Rightarrow>
                   (case nodes w p of
                      Some n \<Rightarrow> (Inl (FileExistsError p), w)
                    | None \<Rightarrow> (Inr (), w\<lparr>nodes := (nodes w)(p \<mapsto> Directory)\<rparr>)))"

text \<open>
  \<open>posixpath.split\<close>:
  \<^verbatim>\<open>i = p.rfind('/') + 1; head, tail = p[:i], p[i:]\<close>, and
  \<^verbatim>\<open>if head and head != '/'*len(head): head = head.rstrip('/')\<close>.
\<close>

definition rstrip_slashes :: "pystr \<Rightarrow> pystr" where
  "rstrip_slashes s = rev (dropWhile (\<lambda>c. c = SLASH) (rev s))"

definition posixpath_split :: "pystr \<Rightarrow> pystr \<times> pystr" where
  "posixpath_split p =
     (let i = nat (rfind p SLASH + 1); head = take i p; tail = drop i p
      in (if head \<noteq> [] \<and> head \<noteq> replicate (length head) SLASH then rstrip_slashes head else head,
          tail))"

text \<open>
  \<open>os.makedirs(name, exist_ok=True)\<close>, as in \<open>os.py\<close>: the name is split into head and
  tail (once more when the tail is empty); a head that does not exist is created first,
  by the same function, and a \<open>FileExistsError\<close> from there is passed over; when the tail
  is \<open>.\<close> nothing is left to do; then \<open>mkdir(name)\<close>, whose \<open>OSError\<close> is passed
  over when the name is a directory (\<^verbatim>\<open>except OSError: if not exist_ok or not path.isdir(name): raise\<close>).
\<close>

definition makedirs_split :: "pystr \<Rightarrow> pystr \<times> pystr" where
  "makedirs_split name =
     (let (head, tail) = posixpath_split name
      in if tail = [] then posixpath_split head else (head, tail))"

definition mkdir_exist_ok :: "pystr \<Rightarrow> unit io" where
  "mkdir_exist_ok name w =
     (case os_mkdir name w of
        (Inl e, w') \<Rightarrow>
          if is_OSError e \<and> os_path_isdir name w' then (Inr (), w') else (Inl e, w')
      | (Inr u, w') \<Rightarrow> (Inr (), w'))"

text \<open>The head of the split is shorter than the name, so the recursion ends.\<close>

lemma rfind_from_absent: "c \<notin> set xs \<Longrightarrow> rfind_from c xs i found = found"
  by (induction xs arbitrary: i found) auto

lemma rfind_from_last:
  "c \<notin> set b \<Longrightarrow> rfind_from c (a @ c # b) i found = int i + int (length a)"
proof (induction a arbitrary: i found)
  case Nil
  then show ?case by (simp add: rfind_from_absent)
next
  case (Cons x a)
  then show ?case by simp
qed

lemma rfind_absent: "c \<notin> set p \<Longrightarrow> rfind p c = - 1"
  by (simp add: rfind_def rfind_from_absent)

lemma rfind_last: "c \<notin> set b \<Longrightarrow> rfind (a @ c # b) c = int (length a)"
  by (simp add: rfind_def rfind_from_last)

lemma rfind_upper: "nat (rfind p c + 1) \<le> length p"
proof (cases "c \<in> set p")
  case False
  then show ?thesis by (simp add: rfind_absent)
next
  case True
  then obtain a b where "p = a @ c # b" "c \<notin> set b"
    by (meson split_list_last)
  then show ?thesis by (simp add: rfind_last)
qed

lemma posixpath_split_length:
  "length (fst (posixpath_split p)) + length (snd (posixpath_split p)) \<le> length p"
proof -
  let ?i = "nat (rfind p SLASH + 1)"
  have "length (rstrip_slashes (take ?i p)) \<le> length (take ?i p)"
    unfolding rstrip_slashes_def by (metis length_dropWhile_le length_rev)
  then show ?thesis
    using rfind_upper [of p SLASH] by (auto simp: posixpath_split_def Let_def)
qed

lemma makedirs_split_shorter:
  "snd (makedirs_split name) \<noteq> [] \<Longrightarrow> length (fst (makedirs_split name)) < length name"
proof -
  assume t: "snd (makedirs_split name) \<noteq> []"
  obtain h0 t0 where s0: "posixpath_split name = (h0, t0)" by (cases "posixpath_split name")
  have l0: "length h0 + length t0 \<le> length name"
    using posixpath_split_length [of name] s0 by simp
  show ?thesis
  proof (cases "t0 = []")
    case False
    then have "0 < length t0" by simp
    with l0 have "length h0 < length name" by linarith
    then show ?thesis using False s0 by (simp add: makedirs_split_def)
  next
    case True
    then have m: "makedirs_split name = posixpath_split h0"
      using s0 by (simp add: makedirs_split_def)
    have "length (fst (posixpath_split h0)) + length (snd (posixpath_split h0)) \<le> length h0"
      by (rule posixpath_split_length)
    moreover have "0 < length (snd (posixpath_split h0))" using t m by simp
    ultimately have "length (fst (posixpath_split h0)) < length name" using l0 by linarith
    then show ?thesis using m by simp
  qed
qed

function os_makedirs :: "pystr \<Rightarrow> unit io" where
  "os_makedirs name w =
     (if fst (makedirs_split name) \<noteq> [] \<and> snd (makedirs_split name) \<noteq> [] \<and>
         \<not> os_path_exists (fst (makedirs_split name)) w
      then (case os_makedirs (fst (makedirs_split name)) w of
              (Inl (FileExistsError p), w') \<Rightarrow>
                if snd (makedirs_split name) = lit ''.'' then (Inr (), w') else mkdir_exist_ok name w'
            | (Inl e, w') \<Rightarrow> (Inl e, w')
            | (Inr u, w') \<Rightarrow>
                if snd (makedirs_split name) = lit ''.'' then (Inr (), w') else mkdir_exist_ok name w')
      else mkdir_exist_ok name w)"
  by pat_completeness auto
termination
  by (relation "measure (\<lambda>(name, w). length name)") (auto simp: makedirs_split_shorter)

declare os_makedirs.simps [simp del]

text \<open>
  \<^verbatim>\<open>with open(p, "w", encoding="utf-8") as f: f.write(s)\<close>: the directories on the
  way must be there; opening creates or truncates the file; a string that cannot be encoded
  leaves it empty.
\<close>

definition write_text :: "pystr \<Rightarrow> pystr \<Rightarrow> unit io" where
  "write_text p s w =
     (case path_arg_error p of
        Some e \<Rightarrow> (Inl e, w)
      | None \<Rightarrow>
          if p = [] then (Inl (FileNotFoundError p), w)
          else case path_walk w p of
                 Some e \<Rightarrow> (Inl e, w)
               | None \<Rightarrow>
                   (case nodes w p of
                      Some Directory \<Rightarrow> (Inl (IsADirectoryError p), w)
                    | _ \<Rightarrow>
                        if utf8_encodable s
                        then (Inr (), w\<lparr>nodes := (nodes w)(p \<mapsto> TextFile s)\<rparr>)
                        else (Inl UnicodeEncodeError,
                              w\<lparr>nodes := (nodes w)(p \<mapsto> TextFile [])\<rparr>)))"

section \<open>The external collaborators\<close>

text \<open>
  The embedding model, the similarity function, the LLM client and float formatting come
  from libraries outside the repository; they are parameters of the model.
  \<^item> \<open>st_new name\<close> is \<open>SentenceTransformer(name)\<close>;
  \<^item> \<open>st_encode m x\<close> is \<open>m.encode(x, convert_to_tensor=True)\<close> for one text or a list
    of texts;
  \<^item> \<open>cos_sim_row a b\<close> is \<open>util.cos_sim(a, b)[0]\<close>, as the list of its elements; a score
    is the real number the float stands for;
  \<^item> \<open>messages_create model max_tokens prompt\<close> is the evaluation of
    \<open>client.messages.create(...)\<close> with one user message: either an exception is raised
    (which includes a failed lookup of the global name \<open>client\<close>), known by its
    \<open>str(e)\<close>, or a message comes back, known by the texts of its content blocks;
  \<^item> \<open>format_3f x\<close> is \<open>format(x, ".3f")\<close>.
\<close>

datatype enc_input = Single pystr | Batch "pystr list"

datatype llm_outcome = Raised pystr | Message "pystr list"

record ('m, 't) deps =
  st_new :: "pystr \<Rightarrow> py_error + 'm"
  st_encode :: "'m \<Rightarrow> enc_input \<Rightarrow> py_error + 't"
  cos_sim_row :: "'t \<Rightarrow> 't \<Rightarrow> py_error + real list"
  messages_create :: "pystr \<Rightarrow> nat \<Rightarrow> pystr \<Rightarrow> llm_outcome"
  format_3f :: "real \<Rightarrow> pystr"

section \<open>comparison.py\<close>

definition load_text :: "pystr \<Rightarrow> pystr io" where
  "load_text file_path w =
     (case nodes w file_path of
        None \<Rightarrow> (Inl (FileNotFoundError file_path), w)
      | Some Directory \<Rightarrow> (Inl (IsADirectoryError file_path), w)
      | Some BinaryFile \<Rightarrow> (Inl (UnicodeDecodeError file_path), w)
      | Some (TextFile s) \<Rightarrow> (Inr (universal_newlines s), w))"

definition encode_text :: "('m, 't) deps \<Rightarrow> 'm \<Rightarrow> enc_input \<Rightarrow> bool \<Rightarrow> py_error + 't" where
  "encode_text d model text is_multiple_texts = st_encode d model text"

definition calculate_similarity :: "('m, 't) deps \<Rightarrow> 't \<Rightarrow> 't \<Rightarrow> py_error + real list" where
  "calculate_similarity d sop_embedding clause_embeddings =
     cos_sim_row d sop_embedding clause_embeddings"

text \<open>
  The loop of \<open>find_relevant_clauses\<close> over \<open>zip(clauses, cosine_scores)\<close>, with the list
  \<open>relevant\<close> it appends to.
\<close>

fun relevant_loop :: "real \<Rightarrow> (pystr \<times> real) list \<Rightarrow> (pystr \<times> real) list \<Rightarrow> (pystr \<times> real) list" where
  "relevant_loop threshold [] relevant = relevant"
| "relevant_loop threshold ((clause, score) # rest) relevant =
     relevant_loop threshold rest
       (if score \<ge> threshold then relevant @ [(clause, score)] else relevant)"

text \<open>The parameter \<open>threshold=0.4\<close>: \<open>None\<close> is the call that leaves it out.\<close>

definition find_relevant_clauses ::
  "('m, 't) deps \<Rightarrow> pystr \<Rightarrow> pystr list \<Rightarrow> 'm \<Rightarrow> real option \<Rightarrow> py_error + (pystr \<times> real) list" where
  "find_relevant_clauses d sop_text clauses model threshold_arg =
     (let threshold = (case threshold_arg of None \<Rightarrow> 0.4 | Some t \<Rightarrow> t)
      in case encode_text d model (Single sop_text) False of
           Inl e \<Rightarrow> Inl e
         | Inr sop_embedding \<Rightarrow>
             (case encode_text d model (Batch clauses) True of
                Inl e \<Rightarrow> Inl e
              | Inr clause_embeddings \<Rightarrow>
                  (case calculate_similarity d sop_embedding clause_embeddings of
                     Inl e \<Rightarrow> Inl e
                   | Inr cosine_scores \<Rightarrow>
                       Inr (relevant_loop threshold (zip clauses cosine_scores) []))))"

definition process_single_regulatory_doc ::
  "('m, 't) deps \<Rightarrow> pystr \<Rightarrow> pystr \<Rightarrow> 'm \<Rightarrow> (pystr \<times> real) list io" where
  "process_single_regulatory_doc d sop_text reg_file_path model =
     io_bind (load_text reg_file_path) (\<lambda>regulatory_text.
       io_lift (find_relevant_clauses d sop_text (extract_clauses regulatory_text) model None))"

text \<open>The loop of \<open>process_regulatory_docs\<close> over \<open>os.listdir(regulatory_docs_folder)\<close>.\<close>

fun docs_loop ::
  "('m, 't) deps \<Rightarrow> pystr \<Rightarrow> pystr \<Rightarrow> 'm \<Rightarrow> pystr list \<Rightarrow>
   (pystr \<times> (pystr \<times> real) list) list \<Rightarrow> (pystr \<times> (pystr \<times> real) list) list io" where
  "docs_loop d sop_text folder model [] all_relevant_clauses w = (Inr all_relevant_clauses, w)"
| "docs_loop d sop_text folder model (filename # rest) all_relevant_clauses w =
     (if endswith (py_lower filename) (lit ''_extracted.txt'')
      then (case process_single_regulatory_doc d sop_text (os_path_join folder filename) model w of
              (Inl e, w') \<Rightarrow> (Inl e, w')
            | (Inr relevant_clauses, w') \<Rightarrow>
                docs_loop d sop_text folder model rest
                  (if relevant_clauses \<noteq> []
                   then all_relevant_clauses @ [(filename, relevant_clauses)]
                   else all_relevant_clauses) w')
      else docs_loop d sop_text folder model rest all_relevant_clauses w)"

definition process_regulatory_docs ::
  "('m, 't) deps \<Rightarrow> pystr \<Rightarrow> pystr \<Rightarrow> (pystr \<times> (pystr \<times> real) list) list io" where
  "process_regulatory_docs d sop_file regulatory_docs_folder =
     io_bind (io_lift (st_new d (lit ''all-MiniLM-L6-v2''))) (\<lambda>model.
     io_bind (load_text sop_file) (\<lambda>sop_text.
     io_bind (os_listdir regulatory_docs_folder) (\<lambda>names.
       docs_loop d sop_text regulatory_docs_folder model names [])))"


section \<open>inference.py\<close>

text \<open>
  The f-string of \<open>create_prompt\<close>, cut at its three interpolations into the literal
  text before \<open>{sop_text}\<close>, between \<open>{sop_text}\<close> and \<open>{reg_name}\<close>, between
  \<open>{reg_name}\<close> and \<open>{clauses_text}\<close>, and after \<open>{clauses_text}\<close>.
\<close>

definition prompt_head :: pystr where
  "prompt_head =
     [NL] @
     lit ''You are an expert in regulatory compliance analysis. Your task is to analyze a Standard Operating Procedure (SOP) document and determine its compliance with relevant regulatory clauses.'' @ [NL] @
     [NL] @
     lit ''### SOP DOCUMENT:'' @ [NL]"

definition prompt_clauses_title :: pystr where
  "prompt_clauses_title = [NL] @ [NL] @ lit ''### RELEVANT REGULATORY CLAUSES FROM ''"

definition prompt_instructions :: pystr where
  "prompt_instructions =
     [NL] @
     [NL] @
     lit ''Please provide a detailed compliance analysis report that includes:'' @ [NL] @
     lit ''1. Overview of the SOP document's purpose and scope'' @ [NL] @
     lit ''2. Analysis of each relevant regulatory clause and how it applies to the SOP'' @ [NL] @
     lit ''3. Identification of any compliance issues or gaps in the SOP'' @ [NL] @
     lit ''4. Specific recommendations for adjustments to bring the SOP into full compliance'' @ [NL] @
     lit ''5. Summary of compliance status'' @ [NL] @
     [NL] @
     lit ''Format your analysis as a professional compliance report with clear sections and actionable insights.'' @ [NL]"

definition create_prompt ::
  "('m, 't) deps \<Rightarrow> pystr \<Rightarrow> (pystr \<times> real) list \<Rightarrow> pystr \<Rightarrow> pystr" where
  "create_prompt d sop_text relevant_clauses reg_name =
     (let clauses_text =
            py_join [NL, NL]
              (map (\<lambda>(clause, score). lit ''Clause (score: '' @ format_3f d score @ lit ''): '' @ clause)
                 relevant_clauses)
      in prompt_head @ sop_text @ prompt_clauses_title @ reg_name @ lit '':'' @ [NL] @
         clauses_text @ prompt_instructions)"

text \<open>
  \<open>generate_report_with_claude\<close>: the body of the \<open>try\<close> is the call and
  \<open>message.content[0].text\<close>; every \<open>Exception\<close> raised there, the \<open>IndexError\<close> of an
  empty content list included, goes to the handler, which prints and returns a string.
\<close>

definition generate_report_with_claude :: "('m, 't) deps \<Rightarrow> pystr \<Rightarrow> nat option \<Rightarrow> pystr io" where
  "generate_report_with_claude d prompt max_tokens_arg =
     (let max_tokens = (case max_tokens_arg of None \<Rightarrow> 4000 | Some n \<Rightarrow> n);
          except = (\<lambda>e. io_bind (print (lit ''Error generating report with Claude: '' @ e))
                           (\<lambda>_. io_return (lit ''Error: '' @ e)))
      in case messages_create d (lit ''claude-3-5-sonnet-20240620'') max_tokens prompt of
           Raised e \<Rightarrow> except e
         | Message [] \<Rightarrow> except (lit ''list index out of range'')
         | Message (text # blocks) \<Rightarrow> io_return text)"





section \<open>Instances of the collaborators for the examples\<close>

text \<open>
  What \<open>format(x, ".3f")\<close> prints for a finite float with value \<open>x\<close>: the value rounded
  to three decimals, ties to even, with the sign of \<open>x\<close>.
\<close>

fun dec :: "nat \<Rightarrow> pystr" where
  "dec n = (if n < 10 then [digit n] else dec (n div 10) @ [digit n])"

declare dec.simps [simp del]

definition round_half_even :: "real \<Rightarrow> nat" where
  "round_half_even y =
     (let n = nat \<lfloor>y\<rfloor>; frac = y - real n
      in if frac > 1 / 2 \<or> (frac = 1 / 2 \<and> odd n) then Suc n else n)"

definition py_format_3f :: "real \<Rightarrow> pystr" where
  "py_format_3f x =
     (let r = round_half_even (\<bar>x\<bar> * 1000)
      in (if x < 0 then lit ''-'' else []) @ dec (r div 1000) @ lit ''.'' @
         [digit (r div 100), digit (r div 10), digit r])"

text \<open>
  An embedding provider for the examples: a text is its own embedding, and a clause scores
  0.8 against any SOP when it mentions \<open>audit\<close>, \<open>0.4\<close> when it mentions \<open>record\<close>, and
  0.1 otherwise. Encoding a batch with a clause that mentions \<open>@@\<close> fails. The LLM
  client is the one of \<open>inference.py\<close> as it stands: the module never binds the name
  \<open>client\<close>, so the call raises \<open>NameError\<close>.
\<close>

definition demo_score :: "pystr \<Rightarrow> real" where
  "demo_score clause =
     (if contains clause (lit ''audit'') then 0.8
      else if contains clause (lit ''record'') then 0.4 else 0.1)"

definition demo_deps :: "(unit, pystr list) deps" where
  "demo_deps = \<lparr>
     st_new = (\<lambda>name. Inr ()),
     st_encode = (\<lambda>model x. case x of
        Single s \<Rightarrow> Inr [s]
      | Batch cs \<Rightarrow> if list_ex (\<lambda>c. contains c (lit ''@@'')) cs
                     then Inl (ProviderError (lit ''encode failed'')) else Inr cs),
     cos_sim_row = (\<lambda>a b. Inr (map demo_score b)),
     messages_create = (\<lambda>model max_tokens prompt. Raised (lit ''name 'client' is not defined'')),
     format_3f = py_format_3f \<rparr>"

text \<open>The same provider with an LLM client that answers.\<close>

definition demo_deps_llm :: "(unit, pystr list) deps" where
  "demo_deps_llm = demo_deps \<lparr>
     messages_create := (\<lambda>model max_tokens prompt. Message [lit ''Compliance report: ok'']) \<rparr>"

text \<open>
  A file system for the examples: an SOP, and a folder \<open>regs\<close> with three files whose name
  ends in \<open>_extracted.txt\<close> in some letter case and one that does not; a second folder
  \<open>bad\<close> whose first file cannot be embedded.
\<close>

definition demo_world :: world where
  "demo_world = \<lparr>
     nodes = [
       lit ''sop.txt'' \<mapsto> TextFile (lit ''We audit and record.''),
       lit ''regs'' \<mapsto> Directory,
       lit ''regs/a_extracted.txt'' \<mapsto> TextFile (lit ''Keep audit logs.\<newline>\<newline>Misc.''),
       lit ''regs/notes.md'' \<mapsto> TextFile (lit ''audit''),
       lit ''regs/b_extracted.txt'' \<mapsto> TextFile (lit ''Nothing here.''),
       lit ''regs/C_EXTRACTED.TXT'' \<mapsto> TextFile (lit ''Keep a record.''),
       lit ''bad'' \<mapsto> Directory,
       lit ''bad/x_extracted.txt'' \<mapsto> TextFile (lit ''@@''),
       lit ''bad/a_extracted.txt'' \<mapsto> TextFile (lit ''Keep audit logs.'')],
     entries = [
       lit ''regs'' \<mapsto> [lit ''a_extracted.txt'', lit ''notes.md'', lit ''b_extracted.txt'',
                            lit ''C_EXTRACTED.TXT''],
       lit ''bad'' \<mapsto> [lit ''x_extracted.txt'', lit ''a_extracted.txt'']],
     clock = (\<lambda>k. \<lparr>year = 2024, month = 3, day = 9, hour = 14, minute = 5, second = k mod 60\<rparr>),
     ticks = 0,
     stdout = [] \<rparr>"

text \<open>The relevant clauses of the files of \<open>regs\<close> under the example provider.\<close>

definition demo_rc :: "pystr \<Rightarrow> (pystr \<times> real) list" where
  "demo_rc f =
     (if f = lit ''a_extracted.txt'' then [(lit ''Keep audit logs.'', 0.8)]
      else if f = lit ''C_EXTRACTED.TXT'' then [(lit ''Keep a record.'', 0.4)] else [])"

section \<open>Conditions on the environment used in the folder-mode results\<close>







text \<open>
  The default output directory \<open>reports\<close> is a directory or does not exist yet, and
  nothing below it is a directory.
\<close>

definition reports_dir_ok :: "world \<Rightarrow> bool" where
  "reports_dir_ok w \<longleftrightarrow>
     (nodes w (lit ''reports'') = None \<or> nodes w (lit ''reports'') = Some Directory) \<and>
     (\<forall>p. take 8 p = lit ''reports/'' \<longrightarrow> nodes w p \<noteq> Some Directory)"

section \<open>The prompt layout in the words of the specification\<close>

text \<open>
  The layout in the words of the specification: a relevant clause is rendered as
  \<open>Clause (score: s): text\<close> with \<open>s\<close> the score in \<open>.3f\<close> format, and the rendered
  clauses follow each other with a blank line between two of them.
\<close>

definition spec_clause_line :: "(real \<Rightarrow> pystr) \<Rightarrow> pystr \<times> real \<Rightarrow> pystr" where
  "spec_clause_line fmt cs = lit ''Clause (score: '' @ fmt (snd cs) @ lit ''): '' @ fst cs"

fun spec_clause_block :: "(real \<Rightarrow> pystr) \<Rightarrow> (pystr \<times> real) list \<Rightarrow> pystr" where
  "spec_clause_block fmt [] = []"
| "spec_clause_block fmt [cs] = spec_clause_line fmt cs"
| "spec_clause_block fmt (cs # cs' # rest) =
     spec_clause_line fmt cs @ [NL] @ [NL] @ spec_clause_block fmt (cs' # rest)"

definition spec_five_instructions :: "pystr list" where
  "spec_five_instructions =
     [lit ''1. Overview of the SOP document's purpose and scope'',
      lit ''2. Analysis of each relevant regulatory clause and how it applies to the SOP'',
      lit ''3. Identification of any compliance issues or gaps in the SOP'',
      lit ''4. Specific recommendations for adjustments to bring the SOP into full compliance'',
      lit ''5. Summary of compliance status'']"

section \<open>Facts about strings\<close>

lemma contains_iff: "contains s sep \<longleftrightarrow> (\<exists>pre post. s = pre @ sep @ post)"
proof (induction s)
  case Nil
  then show ?case by auto
next
  case (Cons c cs)
  have a: "startswith (c # cs) sep \<longleftrightarrow> (\<exists>post. c # cs = sep @ post)"
    unfolding startswith_def
    by (metis append_eq_conv_conj append_take_drop_id)
  have b: "(\<exists>pre post. c # cs = pre @ sep @ post) \<longleftrightarrow>
           (\<exists>post. c # cs = sep @ post) \<or> (\<exists>pre post. cs = pre @ sep @ post)"
  proof
    assume "\<exists>pre post. c # cs = pre @ sep @ post"
    then obtain pre post where h: "c # cs = pre @ sep @ post" by blast
    show "(\<exists>post. c # cs = sep @ post) \<or> (\<exists>pre post. cs = pre @ sep @ post)"
    proof (cases pre)
      case Nil
      with h show ?thesis by auto
    next
      case (Cons p ps)
      with h have "cs = ps @ sep @ post" by simp
      then show ?thesis by blast
    qed
  next
    assume "(\<exists>post. c # cs = sep @ post) \<or> (\<exists>pre post. cs = pre @ sep @ post)"
    then show "\<exists>pre post. c # cs = pre @ sep @ post"
    proof
      assume "\<exists>post. c # cs = sep @ post"
      then obtain post where "c # cs = [] @ sep @ post" by auto
      then show ?thesis by blast
    next
      assume "\<exists>pre post. cs = pre @ sep @ post"
      then obtain pre post where "cs = pre @ sep @ post" by blast
      then have "c # cs = (c # pre) @ sep @ post" by simp
      then show ?thesis by blast
    qed
  qed
  show ?case using Cons.IH a b by simp
qed

lemma split_scan_no_sep:
  "\<not> contains s sep \<Longrightarrow> split_scan sep cur s = [rev cur @ s]"
proof (induction s arbitrary: cur)
  case Nil
  then show ?case by simp
next
  case (Cons c cs)
  then show ?case by simp
qed

lemma split_scan_pieces:
  "p \<in> set (split_scan sep cur s) \<Longrightarrow> set p \<subseteq> set cur \<union> set s"
proof (induction sep cur s rule: split_scan.induct)
  case (1 sep cur)
  then show ?case by simp
next
  case (2 sep cur c cs)
  show ?case
  proof (cases "sep \<noteq> [] \<and> startswith (c # cs) sep")
    case True
    with "2.prems" have "p = rev cur \<or> p \<in> set (split_scan sep [] (drop (length sep) (c # cs)))"
      by simp
    then show ?thesis
    proof
      assume "p = rev cur"
      then show ?thesis by auto
    next
      assume "p \<in> set (split_scan sep [] (drop (length sep) (c # cs)))"
      with "2.IH"(1) True have "set p \<subseteq> set [] \<union> set (drop (length sep) (c # cs))"
        by blast
      moreover have "set (drop (length sep) (c # cs)) \<subseteq> set (c # cs)"
        by (rule set_drop_subset)
      ultimately show ?thesis by auto
    qed
  next
    case False
    with "2.prems" have "p \<in> set (split_scan sep (c # cur) cs)"
      by auto
    with "2.IH"(2) False have "set p \<subseteq> set (c # cur) \<union> set cs"
      by blast
    then show ?thesis by auto
  qed
qed

lemma py_strip_Nil: "py_strip [] = []"
  by (simp add: py_strip_def py_rstrip_def py_lstrip_def)

lemma py_strip_all_space: "\<forall>c\<in>set s. py_isspace c \<Longrightarrow> py_strip s = []"
proof -
  assume "\<forall>c\<in>set s. py_isspace c"
  then have l: "py_lstrip s = []" by (simp add: py_lstrip_def)
  show ?thesis unfolding py_strip_def l by (simp add: py_rstrip_def)
qed

lemma py_lstrip_hd: "py_lstrip s \<noteq> [] \<Longrightarrow> \<not> py_isspace (hd (py_lstrip s))"
  unfolding py_lstrip_def by (rule hd_dropWhile)

lemma py_strip_hd: "py_strip s \<noteq> [] \<Longrightarrow> \<not> py_isspace (hd (py_strip s))"
proof -
  assume ne: "py_strip s \<noteq> []"
  let ?l = "py_lstrip s"
  have lne: "?l \<noteq> []" using ne by (auto simp: py_strip_def py_rstrip_def)
  have "py_strip s = rev (dropWhile py_isspace (rev ?l))"
    by (simp add: py_strip_def py_rstrip_def)
  moreover have "dropWhile py_isspace (rev ?l) \<noteq> []"
    using ne calculation by simp
  ultimately have "hd (py_strip s) = last (dropWhile py_isspace (rev ?l))"
    by (simp add: hd_rev)
  also have "\<dots> = last (rev ?l)"
    using \<open>dropWhile py_isspace (rev ?l) \<noteq> []\<close>
    by (metis (no_types) last_appendR takeWhile_dropWhile_id)
  also have "\<dots> = hd ?l" using lne by (simp add: last_rev)
  finally show ?thesis using py_lstrip_hd [OF lne] by simp
qed

lemma py_strip_last: "py_strip s \<noteq> [] \<Longrightarrow> \<not> py_isspace (last (py_strip s))"
proof -
  assume ne: "py_strip s \<noteq> []"
  let ?d = "dropWhile py_isspace (rev (py_lstrip s))"
  have d: "py_strip s = rev ?d" by (simp add: py_strip_def py_rstrip_def)
  with ne have "?d \<noteq> []" by simp
  then have "\<not> py_isspace (hd ?d)" by (rule hd_dropWhile)
  moreover have "last (py_strip s) = hd ?d" using d \<open>?d \<noteq> []\<close> by (simp add: last_rev)
  ultimately show ?thesis by simp
qed

lemma py_strip_fixed:
  assumes "s \<noteq> []" "\<not> py_isspace (hd s)" "\<not> py_isspace (last s)"
  shows "py_strip s = s"
proof -
  have l: "py_lstrip s = s"
    using assms(1,2) unfolding py_lstrip_def by (cases s) auto
  have "rev s \<noteq> []" "\<not> py_isspace (hd (rev s))"
    using assms(1,3) by (simp_all add: hd_rev)
  then have "dropWhile py_isspace (rev s) = rev s"
    by (cases "rev s") auto
  then show ?thesis by (simp add: py_strip_def py_rstrip_def l)
qed

lemma py_strip_idem: "py_strip (py_strip s) = py_strip s"
proof (cases "py_strip s = []")
  case True
  then show ?thesis by (simp add: py_strip_Nil)
next
  case False
  then show ?thesis
    by (intro py_strip_fixed py_strip_hd py_strip_last)
qed

section \<open>Clause segmentation: properties\<close>

lemmas str_eval =
  lit_def NL_def py_isspace_def py_lstrip_def py_rstrip_def py_strip_def startswith_def
  extract_clauses_def

text \<open>
  C3, as stated. A text without a blank-line delimiter is claimed to yield exactly one
  clause, the trimmed text. The empty text has no delimiter and yields no clause at all,
  because the comprehension drops every piece whose trimmed form is empty.
\<close>

theorem extract_clauses_single_counterexample:
  "\<not> contains [] [NL, NL] \<and> extract_clauses [] = [] \<and> extract_clauses [] \<noteq> [py_strip []]"
  by (simp add: str_eval)

text \<open>
  C3, amended. For every text that contains no two consecutive newlines and whose trimmed
  form is not empty, \<open>extract_clauses\<close> returns exactly one clause, the trimmed text.
\<close>

theorem extract_clauses_single:
  assumes "\<not> contains T [NL, NL]" and "py_strip T \<noteq> []"
  shows "extract_clauses T = [py_strip T]"
proof -
  have "split_scan [NL, NL] [] T = [T]"
    using split_scan_no_sep [OF assms(1), of "[]"] by simp
  then show ?thesis using assms(2) by (simp add: extract_clauses_def)
qed

theorem extract_clauses_single_witness:
  "\<not> contains (lit '' Art. 1\<newline>Scope '') [NL, NL] \<and>
   py_strip (lit '' Art. 1\<newline>Scope '') \<noteq> [] \<and>
   extract_clauses (lit '' Art. 1\<newline>Scope '') = [lit ''Art. 1\<newline>Scope'']"
proof -
  have a: "\<not> contains (lit '' Art. 1\<newline>Scope '') [NL, NL]"
    by (simp add: str_eval)
  have b: "py_strip (lit '' Art. 1\<newline>Scope '') = lit ''Art. 1\<newline>Scope''"
    by (simp add: str_eval)
  have c: "py_strip (lit '' Art. 1\<newline>Scope '') \<noteq> []"
    unfolding b by (simp add: lit_def)
  show ?thesis using extract_clauses_single [OF a c] a b c by simp
qed

text \<open>
  C4. A text that is empty or consists of whitespace only yields no clause; and for every
  text, each returned clause is non-empty and is its own trimmed form, so it is non-empty
  after trimming.
\<close>

theorem extract_clauses_blank_and_nonempty:
  "((\<forall>c\<in>set T. py_isspace c) \<longrightarrow> extract_clauses T = []) \<and>
   (\<forall>cl\<in>set (extract_clauses U). cl \<noteq> [] \<and> py_strip cl = cl \<and> py_strip cl \<noteq> [])"
proof (intro conjI impI ballI)
  assume ws: "\<forall>c\<in>set T. py_isspace c"
  have "py_strip p = []" if "p \<in> set (split_scan [NL, NL] [] T)" for p
  proof -
    have "set p \<subseteq> set T" using split_scan_pieces [OF that] by simp
    with ws have "\<forall>c\<in>set p. py_isspace c" by blast
    then show ?thesis by (rule py_strip_all_space)
  qed
  then have "filter (\<lambda>clause. py_strip clause \<noteq> []) (split_scan [NL, NL] [] T) = []"
    by (simp add: filter_empty_conv)
  then show "extract_clauses T = []" by (simp add: extract_clauses_def)
next
  fix cl assume "cl \<in> set (extract_clauses U)"
  then obtain p where p: "cl = py_strip p" "py_strip p \<noteq> []"
    by (auto simp: extract_clauses_def)
  show "cl \<noteq> []" using p by simp
  show "py_strip cl = cl" using p by (simp add: py_strip_idem)
  show "py_strip cl \<noteq> []" using p by (simp add: py_strip_idem)
qed

theorem extract_clauses_blank_and_nonempty_witness:
  "list_all py_isspace [32, 10, 10, 9, 12288] \<and> extract_clauses [32, 10, 10, 9, 12288] = [] \<and>
   extract_clauses (lit '' a\<newline>\<newline> \<newline>\<newline>\<newline>b c '') = [lit ''a'', lit ''b c''] \<and>
   py_strip (lit ''b c'') = lit ''b c''"
proof -
  have ws: "\<forall>c\<in>set [32, 10, 10, 9, 12288]. py_isspace c"
    by (simp add: py_isspace_def)
  have ex: "extract_clauses (lit '' a\<newline>\<newline> \<newline>\<newline>\<newline>b c '') = [lit ''a'', lit ''b c'']"
    by (simp add: str_eval)
  from extract_clauses_blank_and_nonempty
    [of "[32, 10, 10, 9, 12288]" "lit '' a\<newline>\<newline> \<newline>\<newline>\<newline>b c ''"]
  have "extract_clauses [32, 10, 10, 9, 12288] = []"
    and "\<forall>cl\<in>set (extract_clauses (lit '' a\<newline>\<newline> \<newline>\<newline>\<newline>b c '')). py_strip cl = cl"
    using ws by blast+
  then show ?thesis using ws ex by simp
qed

section \<open>Relevance scoring: properties\<close>

lemmas demo_eval = demo_deps_def demo_deps_llm_def demo_score_def str_eval

lemma relevant_loop_filter:
  "relevant_loop threshold ps relevant =
   relevant @ filter (\<lambda>(clause, score). score \<ge> threshold) ps"
  by (induction ps arbitrary: relevant) auto

lemma find_relevant_clauses_eq:
  assumes "st_encode d model (Single sop_text) = Inr sop_emb"
    and "st_encode d model (Batch clauses) = Inr clause_embs"
    and "cos_sim_row d sop_emb clause_embs = Inr scores"
  shows "find_relevant_clauses d sop_text clauses model (Some threshold) =
         Inr (filter (\<lambda>(clause, score). score \<ge> threshold) (zip clauses scores))"
  using assms
  by (simp add: find_relevant_clauses_def encode_text_def calculate_similarity_def
      relevant_loop_filter)

lemma find_relevant_clauses_default:
  "find_relevant_clauses d sop_text clauses model None =
   find_relevant_clauses d sop_text clauses model (Some 0.4)"
  by (simp add: find_relevant_clauses_def)

lemma subseq_filter_zip: "subseq (map fst (filter P (zip xs ys))) xs"
proof -
  have "subseq (map fst (filter P (zip xs ys))) (map fst (zip xs ys))"
    by (intro subseq_map subseq_filter_left)
  moreover have "subseq (map fst (zip xs ys)) xs"
    by (simp add: map_fst_zip_take prefix_imp_subseq take_is_prefix)
  ultimately show ?thesis using subseq_order.order_trans by blast
qed

text \<open>
  C1. When the embedding provider answers with one score per clause,
  \<open>find_relevant_clauses\<close> returns the pairs of \<open>zip(clauses, scores)\<close> whose score is at
  least the threshold, the bound included, in the order of the clause list: the pair of the
  \<open>i\<close>-th clause is in the result exactly when its score reaches the threshold, and the
  clauses of the result are a subsequence of the input. A call without a threshold is the
  call with threshold 0.4.
\<close>

theorem find_relevant_clauses_filter:
  assumes "st_encode d model (Single sop_text) = Inr sop_emb"
    and "st_encode d model (Batch clauses) = Inr clause_embs"
    and "cos_sim_row d sop_emb clause_embs = Inr scores"
    and "length scores = length clauses"
  shows "find_relevant_clauses d sop_text clauses model (Some threshold) =
           Inr (filter (\<lambda>(clause, score). score \<ge> threshold) (zip clauses scores)) \<and>
         (\<forall>i<length clauses.
            (clauses ! i, scores ! i) \<in>
              set (filter (\<lambda>(clause, score). score \<ge> threshold) (zip clauses scores))
            \<longleftrightarrow> scores ! i \<ge> threshold) \<and>
         subseq (map fst (filter (\<lambda>(clause, score). score \<ge> threshold) (zip clauses scores)))
           clauses \<and>
         find_relevant_clauses d sop_text clauses model None =
           find_relevant_clauses d sop_text clauses model (Some 0.4)"
proof (intro conjI allI impI)
  show "find_relevant_clauses d sop_text clauses model (Some threshold) =
           Inr (filter (\<lambda>(clause, score). score \<ge> threshold) (zip clauses scores))"
    using assms(1-3) by (rule find_relevant_clauses_eq)
next
  fix i assume "i < length clauses"
  then have "(clauses ! i, scores ! i) \<in> set (zip clauses scores)"
    using assms(4) by (auto simp: set_zip)
  then show "(clauses ! i, scores ! i) \<in>
               set (filter (\<lambda>(clause, score). score \<ge> threshold) (zip clauses scores))
             \<longleftrightarrow> scores ! i \<ge> threshold"
    by simp
next
  show "subseq (map fst (filter (\<lambda>(clause, score). score \<ge> threshold) (zip clauses scores)))
          clauses"
    by (rule subseq_filter_zip)
next
  show "find_relevant_clauses d sop_text clauses model None =
           find_relevant_clauses d sop_text clauses model (Some 0.4)"
    by (rule find_relevant_clauses_default)
qed

theorem find_relevant_clauses_filter_witness:
  "st_encode demo_deps () (Single (lit ''sop'')) = Inr [lit ''sop''] \<and>
   st_encode demo_deps () (Batch [lit ''keep audit logs'', lit ''misc'', lit ''record all'']) =
     Inr [lit ''keep audit logs'', lit ''misc'', lit ''record all''] \<and>
   cos_sim_row demo_deps [lit ''sop''] [lit ''keep audit logs'', lit ''misc'', lit ''record all''] =
     Inr [0.8, 0.1, 0.4] \<and>
   find_relevant_clauses demo_deps (lit ''sop'')
       [lit ''keep audit logs'', lit ''misc'', lit ''record all''] () (Some 0.4) =
     Inr [(lit ''keep audit logs'', 0.8), (lit ''record all'', 0.4)] \<and>
   find_relevant_clauses demo_deps (lit ''sop'')
       [lit ''keep audit logs'', lit ''misc'', lit ''record all''] () None =
     Inr [(lit ''keep audit logs'', 0.8), (lit ''record all'', 0.4)]"
proof -
  let ?cs = "[lit ''keep audit logs'', lit ''misc'', lit ''record all'']"
  have e1: "st_encode demo_deps () (Single (lit ''sop'')) = Inr [lit ''sop'']"
    by (simp add: demo_deps_def)
  have e2: "st_encode demo_deps () (Batch ?cs) = Inr ?cs"
    by (simp add: demo_eval)
  have e3: "cos_sim_row demo_deps [lit ''sop''] ?cs = Inr [0.8, 0.1, 0.4]"
    by (simp add: demo_eval)
  have e4: "length [0.8, 0.1, 0.4 :: real] = length ?cs"
    by simp
  from find_relevant_clauses_filter [OF e1 e2 e3 e4, of "0.4"]
  have "find_relevant_clauses demo_deps (lit ''sop'') ?cs () (Some 0.4) =
          Inr [(lit ''keep audit logs'', 0.8), (lit ''record all'', 0.4)]"
    and "find_relevant_clauses demo_deps (lit ''sop'') ?cs () None =
          find_relevant_clauses demo_deps (lit ''sop'') ?cs () (Some 0.4)"
    by simp_all
  then show ?thesis using e1 e2 e3 by simp
qed

text \<open>
  C8. When the provider answers with one score per clause and every score lies in
  \<open>[-1, 1]\<close>, threshold 1.1 leaves nothing and threshold -1.1 keeps every clause, each with
  its score.
\<close>

theorem find_relevant_clauses_out_of_range:
  assumes "st_encode d model (Single sop_text) = Inr sop_emb"
    and "st_encode d model (Batch clauses) = Inr clause_embs"
    and "cos_sim_row d sop_emb clause_embs = Inr scores"
    and "length scores = length clauses"
    and "\<forall>s\<in>set scores. - 1 \<le> s \<and> s \<le> 1"
  shows "find_relevant_clauses d sop_text clauses model (Some 1.1) = Inr [] \<and>
         find_relevant_clauses d sop_text clauses model (Some (- 1.1)) = Inr (zip clauses scores) \<and>
         map fst (zip clauses scores) = clauses"
proof (intro conjI)
  have hi: "filter (\<lambda>(clause, score). score \<ge> 1.1) (zip clauses scores) = []"
    using assms(5) by (auto simp: filter_empty_conv dest!: set_zip_rightD)
  show "find_relevant_clauses d sop_text clauses model (Some 1.1) = Inr []"
    using find_relevant_clauses_eq [OF assms(1-3), of "1.1"] hi by simp
  have lo: "filter (\<lambda>(clause, score). score \<ge> - 1.1) (zip clauses scores) = zip clauses scores"
    using assms(5) by (auto simp: filter_id_conv dest!: set_zip_rightD)
  show "find_relevant_clauses d sop_text clauses model (Some (- 1.1)) = Inr (zip clauses scores)"
    using find_relevant_clauses_eq [OF assms(1-3), of "- 1.1"] lo by simp
  show "map fst (zip clauses scores) = clauses"
    using assms(4) by simp
qed

theorem find_relevant_clauses_out_of_range_witness:
  "st_encode demo_deps () (Single (lit ''sop'')) = Inr [lit ''sop''] \<and>
   st_encode demo_deps () (Batch [lit ''audit trail'', lit ''other'']) =
     Inr [lit ''audit trail'', lit ''other''] \<and>
   cos_sim_row demo_deps [lit ''sop''] [lit ''audit trail'', lit ''other''] = Inr [0.8, 0.1] \<and>
   list_all (\<lambda>s. - 1 \<le> s \<and> s \<le> 1) [0.8, 0.1 :: real] \<and>
   find_relevant_clauses demo_deps (lit ''sop'') [lit ''audit trail'', lit ''other''] () (Some 1.1) =
     Inr [] \<and>
   find_relevant_clauses demo_deps (lit ''sop'') [lit ''audit trail'', lit ''other''] ()
       (Some (- 1.1)) =
     Inr [(lit ''audit trail'', 0.8), (lit ''other'', 0.1)]"
proof -
  let ?cs = "[lit ''audit trail'', lit ''other'']"
  have e1: "st_encode demo_deps () (Single (lit ''sop'')) = Inr [lit ''sop'']"
    by (simp add: demo_deps_def)
  have e2: "st_encode demo_deps () (Batch ?cs) = Inr ?cs"
    by (simp add: demo_eval)
  have e3: "cos_sim_row demo_deps [lit ''sop''] ?cs = Inr [0.8, 0.1]"
    by (simp add: demo_eval)
  have e4: "length [0.8, 0.1 :: real] = length ?cs"
    by simp
  have e5: "\<forall>s\<in>set [0.8, 0.1 :: real]. - 1 \<le> s \<and> s \<le> 1"
    by simp
  from find_relevant_clauses_out_of_range [OF e1 e2 e3 e4 e5]
  show ?thesis using e1 e2 e3 by simp
qed

section \<open>Prompt composition: properties\<close>

lemma py_join_clause_block:
  "py_join [NL, NL] (map (\<lambda>(clause, score). lit ''Clause (score: '' @ fmt score @ lit ''): '' @ clause) rcs) =
   spec_clause_block fmt rcs"
  by (induction fmt rcs rule: spec_clause_block.induct)
     (simp_all add: spec_clause_line_def case_prod_beta)

lemma prompt_instructions_five:
  "prompt_instructions =
     [NL, NL] @ lit ''Please provide a detailed compliance analysis report that includes:'' @ [NL] @
     concat (map (\<lambda>line. line @ [NL]) spec_five_instructions) @ [NL] @
     lit ''Format your analysis as a professional compliance report with clear sections and actionable insights.'' @ [NL]"
  by (simp add: prompt_instructions_def spec_five_instructions_def)

text \<open>
  C7. \<open>create_prompt\<close> is a function of the SOP text, the relevant clauses and the
  regulation name alone (and of the float formatting of the language): it takes no world
  and returns none, so it has no effect and equal arguments give equal prompts. The prompt
  is the fixed opening, the SOP text as it is, the title line with the regulation name, the
  clause block of the specification, and the fixed closing with the five numbered
  instructions.
\<close>

theorem create_prompt_layout:
  "create_prompt d sop_text relevant_clauses reg_name =
     prompt_head @ sop_text @
     prompt_clauses_title @ reg_name @ lit '':'' @ [NL] @
     spec_clause_block (format_3f d) relevant_clauses @
     [NL, NL] @ lit ''Please provide a detailed compliance analysis report that includes:'' @ [NL] @
     concat (map (\<lambda>line. line @ [NL]) spec_five_instructions) @ [NL] @
     lit ''Format your analysis as a professional compliance report with clear sections and actionable insights.'' @ [NL]"
  unfolding create_prompt_def Let_def py_join_clause_block
  by (simp only: prompt_instructions_five append_assoc)

lemma create_prompt_example:
  "create_prompt demo_deps (lit ''SOP'') [(lit ''A'', 0.8), (lit ''B'', 0.4567)] (lit ''R'') =
     prompt_head @ lit ''SOP'' @ prompt_clauses_title @ lit ''R:\<newline>'' @
     lit ''Clause (score: 0.800): A\<newline>\<newline>Clause (score: 0.457): B'' @ prompt_instructions"
  by (simp add: create_prompt_def demo_deps_def py_format_3f_def round_half_even_def
      dec.simps digit_def lit_def NL_def)

section \<open>Report generation: properties\<close>

lemmas io_eval = io_bind_def io_return_def io_lift_def print_def

text \<open>
  C6, as stated. A failed call is claimed to give a typed failure that can be told from a
  report. The function returns a plain string in both cases: the call that fails with the
  description \<open>boom\<close> and the call that succeeds with the report text \<open>Error: boom\<close>
  return the same value.
\<close>

theorem generate_report_failure_counterexample:
  "fst (generate_report_with_claude
          (demo_deps\<lparr>messages_create := (\<lambda>model max_tokens prompt. Raised (lit ''boom''))\<rparr>)
          (lit ''prompt'') None demo_world) = Inr (lit ''Error: boom'') \<and>
   fst (generate_report_with_claude
          (demo_deps\<lparr>messages_create := (\<lambda>model max_tokens prompt. Message [lit ''Error: boom''])\<rparr>)
          (lit ''prompt'') None demo_world) = Inr (lit ''Error: boom'')"
  by (simp add: generate_report_with_claude_def io_eval lit_def)

text \<open>
  C6, amended. When the LLM call raises an exception with description \<open>e\<close>,
  \<open>generate_report_with_claude\<close> prints a line and returns the plain string
  \<open>Error: e\<close>, of the same type as a report; and whatever the call does, the function
  returns a string and raises nothing.
\<close>

theorem generate_report_never_raises:
  "(messages_create d (lit ''claude-3-5-sonnet-20240620'')
        (case max_tokens of None \<Rightarrow> 4000 | Some n \<Rightarrow> n) prompt = Raised e \<longrightarrow>
      generate_report_with_claude d prompt max_tokens w =
        (Inr (lit ''Error: '' @ e),
         w\<lparr>stdout := stdout w @ [lit ''Error generating report with Claude: '' @ e]\<rparr>)) \<and>
   (\<exists>report w'. generate_report_with_claude d prompt max_tokens w = (Inr report, w'))"
proof (intro conjI impI)
  assume "messages_create d (lit ''claude-3-5-sonnet-20240620'')
            (case max_tokens of None \<Rightarrow> 4000 | Some n \<Rightarrow> n) prompt = Raised e"
  then show "generate_report_with_claude d prompt max_tokens w =
        (Inr (lit ''Error: '' @ e),
         w\<lparr>stdout := stdout w @ [lit ''Error generating report with Claude: '' @ e]\<rparr>)"
    by (simp add: generate_report_with_claude_def io_eval)
next
  show "\<exists>report w'. generate_report_with_claude d prompt max_tokens w = (Inr report, w')"
    by (simp add: generate_report_with_claude_def io_eval split: llm_outcome.split list.split)
qed

theorem generate_report_never_raises_witness:
  "messages_create demo_deps (lit ''claude-3-5-sonnet-20240620'') 4000 (lit ''prompt'') =
     Raised (lit ''name 'client' is not defined'') \<and>
   generate_report_with_claude demo_deps (lit ''prompt'') None demo_world =
     (Inr (lit ''Error: name 'client' is not defined''),
      demo_world\<lparr>stdout := stdout demo_world @
        [lit ''Error generating report with Claude: name 'client' is not defined'']\<rparr>)"
proof -
  have r: "messages_create demo_deps (lit ''claude-3-5-sonnet-20240620'')
             (case None of None \<Rightarrow> 4000 | Some n \<Rightarrow> n) (lit ''prompt'') =
           Raised (lit ''name 'client' is not defined'')"
    by (simp add: demo_deps_def)
  from generate_report_never_raises
    [of demo_deps None "lit ''prompt''" "lit ''name 'client' is not defined''" demo_world]
  have "generate_report_with_claude demo_deps (lit ''prompt'') None demo_world =
     (Inr (lit ''Error: '' @ lit ''name 'client' is not defined''),
      demo_world\<lparr>stdout := stdout demo_world @
        [lit ''Error generating report with Claude: '' @ lit ''name 'client' is not defined'']\<rparr>)"
    using r by blast
  then show ?thesis using r by (simp add: lit_def)
qed

section \<open>Paths and time stamps: facts\<close>











lemma pad2_decodes: "n < 100 \<Longrightarrow> 10 * (pad2 n ! 0 - 48) + (pad2 n ! 1 - 48) = n"
proof -
  assume "n < 100"
  then have "(n div 10) mod 10 = n div 10" by simp
  then show ?thesis by (simp add: pad2_def digit_def)
qed

lemma pad4_decodes:
  "n < 10000 \<Longrightarrow>
   1000 * (pad4 n ! 0 - 48) + 100 * (pad4 n ! 1 - 48) + 10 * (pad4 n ! 2 - 48) + (pad4 n ! 3 - 48) = n"
proof -
  assume n: "n < 10000"
  then have a: "(n div 1000) mod 10 = n div 1000" by simp
  have h: "n div 100 = n div 10 div 10" "n div 1000 = n div 10 div 10 div 10"
    by (simp_all add: div_mult2_eq)
  have s1: "n = 10 * (n div 10) + n mod 10" by simp
  have s2: "n div 10 = 10 * (n div 10 div 10) + n div 10 mod 10" by simp
  have s3: "n div 10 div 10 = 10 * (n div 10 div 10 div 10) + n div 10 div 10 mod 10" by simp
  have "n = 1000 * (n div 10 div 10 div 10) + 100 * (n div 10 div 10 mod 10) +
            10 * (n div 10 mod 10) + n mod 10"
    using s1 s2 s3 by linarith
  then show ?thesis using a by (simp add: pad4_def digit_def h)
qed

section \<open>Report store: properties\<close>

lemmas fs_eval = datetime_now_def write_text_def load_text_def os_listdir_def os_path_exists_def

lemma os_path_join_longer:
  "\<not> startswith b [SLASH] \<Longrightarrow> b \<noteq> [] \<Longrightarrow> os_path_join a b \<noteq> a"
  by (simp add: os_path_join_def)




lemma os_path_join_prefix:
  "\<not> startswith b [SLASH] \<Longrightarrow> take (length a) (os_path_join a b) = a"
  by (simp add: os_path_join_def)

section \<open>Single-document mode: properties\<close>

lemmas run_eval =
  process_single_regulatory_doc_def find_relevant_clauses_def encode_text_def
  calculate_similarity_def io_eval fs_eval demo_eval demo_world_def




section \<open>Folder mode: properties\<close>

lemma process_single_keeps_world:
  "snd (process_single_regulatory_doc d sop_text path model w) = w"
  by (simp add: process_single_regulatory_doc_def io_bind_def io_lift_def load_text_def
      split: option.split node.split sum.split)

lemma docs_loop_collects:
  assumes "\<forall>f\<in>set names. endswith (py_lower f) (lit ''_extracted.txt'') \<longrightarrow>
             fst (process_single_regulatory_doc d sop_text (os_path_join folder f) model w) =
               Inr (rc f)"
  shows "docs_loop d sop_text folder model names acc w =
           (Inr (acc @ filter (\<lambda>(f, r). r \<noteq> [])
                   (map (\<lambda>f. (f, rc f))
                      (filter (\<lambda>f. endswith (py_lower f) (lit ''_extracted.txt'')) names))), w)"
  using assms
proof (induction names arbitrary: acc)
  case Nil
  then show ?case by simp
next
  case (Cons f names)
  show ?case
  proof (cases "endswith (py_lower f) (lit ''_extracted.txt'')")
    case False
    then show ?thesis using Cons by simp
  next
    case True
    with Cons.prems
    have "fst (process_single_regulatory_doc d sop_text (os_path_join folder f) model w) =
            Inr (rc f)"
      by simp
    then have one: "process_single_regulatory_doc d sop_text (os_path_join folder f) model w =
            (Inr (rc f), w)"
      using process_single_keeps_world [of d sop_text "os_path_join folder f" model w]
      by (metis prod.collapse)
    show ?thesis using True one Cons by simp
  qed
qed

lemma docs_loop_raises:
  assumes "endswith (py_lower f) (lit ''_extracted.txt'')"
    and "fst (process_single_regulatory_doc d sop_text (os_path_join folder f) model w) = Inl e"
  shows "docs_loop d sop_text folder model (f # rest) acc w = (Inl e, w)"
proof -
  have "process_single_regulatory_doc d sop_text (os_path_join folder f) model w = (Inl e, w)"
    using assms(2) process_single_keeps_world [of d sop_text "os_path_join folder f" model w]
    by (metis prod.collapse)
  then show ?thesis using assms(1) by simp
qed

text \<open>
  C9. When the model loads, the SOP is read, the folder is listed and every eligible file
  of the listing (name ending in \<open>_extracted.txt\<close>, in any letter case) is processed
  without an exception, \<open>process_regulatory_docs\<close> returns, in the order of the listing,
  one pair of file name and relevant clauses for each eligible file whose relevant clauses
  are not empty. Eligible files without relevant clauses leave no entry and no error: the
  call returns normally and the world, standard output included, is as before.
\<close>

theorem process_regulatory_docs_aggregate:
  assumes "st_new d (lit ''all-MiniLM-L6-v2'') = Inr model"
    and "fst (load_text sop_file w) = Inr sop_text"
    and "entries w folder = Some names"
    and "\<forall>f\<in>set names. endswith (py_lower f) (lit ''_extracted.txt'') \<longrightarrow>
           fst (process_single_regulatory_doc d sop_text (os_path_join folder f) model w) =
             Inr (rc f)"
  shows "process_regulatory_docs d sop_file folder w =
           (Inr (map (\<lambda>f. (f, rc f))
                   (filter (\<lambda>f. endswith (py_lower f) (lit ''_extracted.txt'') \<and> rc f \<noteq> []) names)),
            w)"
proof -
  have l: "load_text sop_file w = (Inr sop_text, w)"
    using assms(2) by (auto simp: load_text_def split: option.splits node.splits)
  have "filter (\<lambda>(f, r). r \<noteq> [])
          (map (\<lambda>f. (f, rc f)) (filter (\<lambda>f. endswith (py_lower f) (lit ''_extracted.txt'')) names)) =
        map (\<lambda>f. (f, rc f))
          (filter (\<lambda>f. endswith (py_lower f) (lit ''_extracted.txt'') \<and> rc f \<noteq> []) names)"
    by (induction names) auto
  then show ?thesis
    using docs_loop_collects [OF assms(4), of "[]"] assms(1,3) l
    by (simp add: process_regulatory_docs_def io_bind_def io_lift_def os_listdir_def)
qed

lemma demo_single_a:
  "fst (process_single_regulatory_doc demo_deps (lit ''We audit and record.'')
          (lit ''regs/a_extracted.txt'') () demo_world) = Inr [(lit ''Keep audit logs.'', 0.8)]"
  by (simp add: run_eval)

lemma demo_single_b:
  "fst (process_single_regulatory_doc demo_deps (lit ''We audit and record.'')
          (lit ''regs/b_extracted.txt'') () demo_world) = Inr []"
  by (simp add: run_eval)

lemma demo_single_c:
  "fst (process_single_regulatory_doc demo_deps (lit ''We audit and record.'')
          (lit ''regs/C_EXTRACTED.TXT'') () demo_world) = Inr [(lit ''Keep a record.'', 0.4)]"
  by (simp add: run_eval)

theorem process_regulatory_docs_aggregate_witness:
  "st_new demo_deps (lit ''all-MiniLM-L6-v2'') = Inr () \<and>
   fst (load_text (lit ''sop.txt'') demo_world) = Inr (lit ''We audit and record.'') \<and>
   entries demo_world (lit ''regs'') =
     Some [lit ''a_extracted.txt'', lit ''notes.md'', lit ''b_extracted.txt'', lit ''C_EXTRACTED.TXT''] \<and>
   process_regulatory_docs demo_deps (lit ''sop.txt'') (lit ''regs'') demo_world =
     (Inr [(lit ''a_extracted.txt'', [(lit ''Keep audit logs.'', 0.8)]),
           (lit ''C_EXTRACTED.TXT'', [(lit ''Keep a record.'', 0.4)])], demo_world)"
proof -
  let ?names = "[lit ''a_extracted.txt'', lit ''notes.md'', lit ''b_extracted.txt'',
                 lit ''C_EXTRACTED.TXT'']"
  have h1: "st_new demo_deps (lit ''all-MiniLM-L6-v2'') = Inr ()"
    by (simp add: demo_deps_def)
  have h2: "fst (load_text (lit ''sop.txt'') demo_world) = Inr (lit ''We audit and record.'')"
    by (simp add: load_text_def demo_world_def lit_def)
  have h3: "entries demo_world (lit ''regs'') = Some ?names"
    by (simp add: demo_world_def lit_def)
  have j: "os_path_join (lit ''regs'') (lit ''a_extracted.txt'') = lit ''regs/a_extracted.txt''"
    "os_path_join (lit ''regs'') (lit ''b_extracted.txt'') = lit ''regs/b_extracted.txt''"
    "os_path_join (lit ''regs'') (lit ''C_EXTRACTED.TXT'') = lit ''regs/C_EXTRACTED.TXT''"
    by (simp_all add: os_path_join_def startswith_def endswith_def SLASH_def lit_def)
  have rc: "demo_rc (lit ''a_extracted.txt'') = [(lit ''Keep audit logs.'', 0.8)]"
    "demo_rc (lit ''b_extracted.txt'') = []"
    "demo_rc (lit ''C_EXTRACTED.TXT'') = [(lit ''Keep a record.'', 0.4)]"
    "demo_rc (lit ''notes.md'') = []"
    by (simp_all add: demo_rc_def lit_def)
  have el: "endswith (py_lower (lit ''a_extracted.txt'')) (lit ''_extracted.txt'')"
    "endswith (py_lower (lit ''b_extracted.txt'')) (lit ''_extracted.txt'')"
    "endswith (py_lower (lit ''C_EXTRACTED.TXT'')) (lit ''_extracted.txt'')"
    "\<not> endswith (py_lower (lit ''notes.md'')) (lit ''_extracted.txt'')"
    by (simp_all add: endswith_def py_lower_def lit_def)
  have h4: "\<forall>f\<in>set ?names. endswith (py_lower f) (lit ''_extracted.txt'') \<longrightarrow>
           fst (process_single_regulatory_doc demo_deps (lit ''We audit and record.'')
                  (os_path_join (lit ''regs'') f) () demo_world) = Inr (demo_rc f)"
    using el by (simp add: j rc demo_single_a demo_single_b demo_single_c)
  from process_regulatory_docs_aggregate [OF h1 h2 h3 h4]
  have "process_regulatory_docs demo_deps (lit ''sop.txt'') (lit ''regs'') demo_world =
          (Inr (map (\<lambda>f. (f, demo_rc f))
                  (filter (\<lambda>f. endswith (py_lower f) (lit ''_extracted.txt'') \<and> demo_rc f \<noteq> [])
                     ?names)), demo_world)" .
  then show ?thesis using h1 h2 h3 by (simp add: el rc)
qed

section \<open>The file system: facts\<close>



























text \<open>
  Two checks of the file-system model on the example world. Without the directory the
  file cannot be opened for writing; and below a regular file no directory can be made.
\<close>

lemma write_text_needs_directory:
  "write_text (lit ''out/r.txt'') (lit ''x'') demo_world =
     (Inl (FileNotFoundError (lit ''out/r.txt'')), demo_world)"
  by (simp add: write_text_def path_arg_error_def fs_encodable_def path_walk_def ancestors_def
      demo_world_def SLASH_def lit_def)

lemma os_makedirs_below_file:
  "os_makedirs (lit ''sop.txt/sub'') demo_world =
     (Inl (NotADirectoryError (lit ''sop.txt/sub'')), demo_world)"
  by (simp add: os_makedirs.simps makedirs_split_def posixpath_split_def rfind_def
      rstrip_slashes_def mkdir_exist_ok_def os_mkdir_def os_path_isdir_def os_path_exists_def
      path_arg_error_def fs_encodable_def path_walk_def ancestors_def demo_world_def Let_def
      SLASH_def lit_def)





section \<open>Failure isolation in folder mode: properties\<close>




lemma reports_dir_ok_stdout [simp]: "reports_dir_ok (w\<lparr>stdout := out\<rparr>) = reports_dir_ok w"
  by (simp add: reports_dir_ok_def)













end
